theory Spec2Isabelle
  imports Complex_Main
begin

section \<open>Saturating subtraction of two \<open>struct timespec\<close> values\<close>

text \<open>
  The development embeds \<^verbatim>\<open>timespec_sub\<close> of
  \<^verbatim>\<open>emacs-30.1/lib/timespec-sub.c\<close>. C integers are modelled as \<open>int\<close> together
  with the range of their C type: an operation the C code performs unchecked yields a
  \<open>fault\<close> when its mathematical result leaves that range, so that "no undefined
  behaviour" is a statement about the model and not an assumption of it. The checked
  operations \<^verbatim>\<open>ckd_add\<close> and \<^verbatim>\<open>ckd_sub\<close> return the overflow flag and the wrapped
  value, as C23 defines them, and the conversion from \<open>long\<close> to \<open>int\<close> truncates.
\<close>

subsection \<open>The C types involved\<close>

text \<open>
  \<open>int\<close> is 32 bits wide, \<open>long\<close> (the type of \<open>tv_nsec\<close>) and \<open>time_t\<close> (the type
  of \<open>tv_sec\<close>) are 64 bits wide and signed.
\<close>

definition INT_MIN :: int where
  "INT_MIN = - (2 ^ 31)"

definition INT_MAX :: int where
  "INT_MAX = 2 ^ 31 - 1"

definition LONG_MIN :: int where
  "LONG_MIN = - (2 ^ 63)"

definition LONG_MAX :: int where
  "LONG_MAX = 2 ^ 63 - 1"

text \<open>
  Modelled from the spec: the macro \<^verbatim>\<open>TYPE_MINIMUM\<close> of \<^verbatim>\<open>intprops.h\<close> is not among
  the sources. \<^verbatim>\<open>TYPE_MINIMUM (time_t)\<close> is the spec's \<open>SEC_MIN\<close>, the minimum of the
  signed type of the seconds.
\<close>

definition TIME_T_MIN :: int where
  "TIME_T_MIN = - (2 ^ 63)"

text \<open>
  Modelled from the spec: the macro \<^verbatim>\<open>TYPE_MAXIMUM\<close> of \<^verbatim>\<open>intprops.h\<close> is not among
  the sources. \<^verbatim>\<open>TYPE_MAXIMUM (time_t)\<close> is the spec's \<open>SEC_MAX\<close>.
\<close>

definition TIME_T_MAX :: int where
  "TIME_T_MAX = 2 ^ 63 - 1"

text \<open>
  Modelled from the spec: the macro \<^verbatim>\<open>TYPE_SIGNED\<close> of \<^verbatim>\<open>intprops.h\<close> is not among
  the sources. It is 1 for a signed type and 0 for an unsigned one; the spec's data model
  makes the seconds a signed integer, so \<^verbatim>\<open>TYPE_SIGNED (time_t)\<close> is 1.
\<close>

definition TYPE_SIGNED_time_t :: int where
  "TYPE_SIGNED_time_t = 1"

text \<open>
  Modelled from the spec: the constant \<^verbatim>\<open>TIMESPEC_HZ\<close> of \<^verbatim>\<open>timespec.h\<close> is not among
  the sources. It is the spec's \<open>HZ\<close>, the number of sub-second units per second,
  1,000,000,000 at nanosecond resolution. The embedding of \<^verbatim>\<open>timespec_sub\<close> takes the
  constant as its first argument \<open>hz\<close>, so that the results below hold for every
  resolution that is positive and fits an \<open>int\<close>, this one and the spec's \<open>HZ = 1000\<close>
  among them.
\<close>

definition TIMESPEC_HZ :: int where
  "TIMESPEC_HZ = 1000000000"

definition valid_hz :: "int \<Rightarrow> bool" where
  "valid_hz hz \<longleftrightarrow> 0 < hz \<and> hz \<le> INT_MAX"

record timespec =
  tv_sec :: int
  tv_nsec :: int

text \<open>
  Modelled from the spec: the inline function \<^verbatim>\<open>make_timespec\<close> of \<^verbatim>\<open>timespec.h\<close> is
  not among the sources. It builds the result \<open>{ rs, rns }\<close> from its two arguments.
\<close>

definition make_timespec :: "int \<Rightarrow> int \<Rightarrow> timespec" where
  "make_timespec s ns = \<lparr>tv_sec = s, tv_nsec = ns\<rparr>"

definition time_t_range :: "int \<Rightarrow> bool" where
  "time_t_range x \<longleftrightarrow> TIME_T_MIN \<le> x \<and> x \<le> TIME_T_MAX"

text \<open>
  A value of type \<open>struct timespec\<close> that meets the precondition stated in the header
  comment of the source: \<open>0 <= tv_nsec < TIMESPEC_HZ\<close>.
\<close>

definition valid_timespec :: "int \<Rightarrow> timespec \<Rightarrow> bool" where
  "valid_timespec hz t \<longleftrightarrow> time_t_range (tv_sec t) \<and> 0 \<le> tv_nsec t \<and> tv_nsec t < hz"

subsection \<open>Unchecked and checked arithmetic\<close>

datatype fault = Signed_Overflow

text \<open>\<open>a.tv_nsec - b.tv_nsec\<close>: a subtraction in \<open>long\<close>.\<close>

definition long_sub :: "int \<Rightarrow> int \<Rightarrow> fault + int" where
  "long_sub x y =
     (if LONG_MIN \<le> x - y \<and> x - y \<le> LONG_MAX then Inr (x - y) else Inl Signed_Overflow)"

text \<open>
  The initialisation \<open>int ns = ...\<close> converts the \<open>long\<close> difference to \<open>int\<close>. The
  conversion of a value that does not fit is implementation-defined and not undefined:
  the compiled code keeps the low 32 bits, read as a signed number.
\<close>

definition long_to_int :: "int \<Rightarrow> int" where
  "long_to_int x = (x + 2 ^ 31) mod 2 ^ 32 - 2 ^ 31"

text \<open>\<open>ns + TIMESPEC_HZ\<close> and \<open>TIMESPEC_HZ - 1\<close>: arithmetic in \<open>int\<close>.\<close>

definition int_add :: "int \<Rightarrow> int \<Rightarrow> fault + int" where
  "int_add x y =
     (if INT_MIN \<le> x + y \<and> x + y \<le> INT_MAX then Inr (x + y) else Inl Signed_Overflow)"

definition int_sub :: "int \<Rightarrow> int \<Rightarrow> fault + int" where
  "int_sub x y =
     (if INT_MIN \<le> x - y \<and> x - y \<le> INT_MAX then Inr (x - y) else Inl Signed_Overflow)"

text \<open>\<open>rs--\<close>: a decrement in \<open>time_t\<close>.\<close>

definition time_t_dec :: "int \<Rightarrow> fault + int" where
  "time_t_dec x = (if time_t_range (x - 1) then Inr (x - 1) else Inl Signed_Overflow)"

text \<open>The value a 64-bit signed object holds after a result is stored into it wrapped.\<close>

definition wrap_time_t :: "int \<Rightarrow> int" where
  "wrap_time_t x = (x + 2 ^ 63) mod 2 ^ 64 - 2 ^ 63"

text \<open>
  Modelled from the spec: the macro \<^verbatim>\<open>ckd_add\<close> of \<^verbatim>\<open>stdckdint.h\<close> is not among the
  sources. It is the spec's overflow-checked addition: \<^verbatim>\<open>ckd_add (&r, a, b)\<close> with \<open>r\<close>
  of type \<open>time_t\<close> returns true when the mathematical sum does not fit \<open>time_t\<close>, and
  stores the sum, wrapped, in \<open>r\<close>.
\<close>

definition ckd_add :: "int \<Rightarrow> int \<Rightarrow> bool \<times> int" where
  "ckd_add x y = (\<not> time_t_range (x + y), wrap_time_t (x + y))"

text \<open>
  Modelled from the spec: the macro \<^verbatim>\<open>ckd_sub\<close> of \<^verbatim>\<open>stdckdint.h\<close> is not among the
  sources. It is the spec's overflow-checked subtraction, with the same convention.
\<close>

definition ckd_sub :: "int \<Rightarrow> int \<Rightarrow> bool \<times> int" where
  "ckd_sub x y = (\<not> time_t_range (x - y), wrap_time_t (x - y))"

subsection \<open>The function\<close>

text \<open>
  The two ways out of the body of \<open>if (ns < 0)\<close>: the jump to the label
  \<open>low_overflow\<close>, or falling through with the adjusted \<open>rs\<close> and \<open>bs\<close>.
\<close>

datatype borrow = Low_Overflow | Adjusted int int

text \<open>
  Lines 41 to 47, the body of \<open>if (ns < 0)\<close> after \<open>rns\<close> is set: the borrow is taken
  from the subtrahend's seconds, or else from the minuend's, or else control jumps to
  \<open>low_overflow\<close>.
\<close>

definition borrow_seconds :: "int \<Rightarrow> int \<Rightarrow> fault + borrow" where
  "borrow_seconds rs bs =
     (case ckd_add bs 1 of
        (False, bs1) \<Rightarrow> Inr (Adjusted rs bs1)
      | (True, _) \<Rightarrow>
          if - TYPE_SIGNED_time_t < rs
          then (case time_t_dec rs of
                  Inl e \<Rightarrow> Inl e
                | Inr rs' \<Rightarrow> Inr (Adjusted rs' bs))
          else Inr Low_Overflow)"

text \<open>Lines 54 to 56, the code at the label \<open>low_overflow\<close>, followed by the return.\<close>

definition low_overflow :: timespec where
  "low_overflow = make_timespec TIME_T_MIN 0"

text \<open>Lines 60 and 61, followed by the return.\<close>

definition high_overflow :: "int \<Rightarrow> fault + timespec" where
  "high_overflow hz =
     (case int_sub hz 1 of
        Inl e \<Rightarrow> Inl e
      | Inr n \<Rightarrow> Inr (make_timespec TIME_T_MAX n))"

text \<open>Lines 50 to 65: the checked subtraction of the seconds and the return.\<close>

definition subtract_seconds :: "int \<Rightarrow> int \<Rightarrow> int \<Rightarrow> int \<Rightarrow> fault + timespec" where
  "subtract_seconds hz rs bs rns =
     (case ckd_sub rs bs of
        (True, _) \<Rightarrow> if 0 < bs then Inr low_overflow else high_overflow hz
      | (False, rs') \<Rightarrow> Inr (make_timespec rs' rns))"

text \<open>
  Lines 30 to 66. \<open>Inl\<close> is a run in which an unchecked operation left the range of
  its type; \<open>Inr\<close> carries the value returned.
\<close>

definition timespec_sub :: "int \<Rightarrow> timespec \<Rightarrow> timespec \<Rightarrow> fault + timespec" where
  "timespec_sub hz a b =
     (let rs = tv_sec a; bs = tv_sec b in
      case long_sub (tv_nsec a) (tv_nsec b) of
        Inl e \<Rightarrow> Inl e
      | Inr d \<Rightarrow>
         (let ns = long_to_int d in
          if ns < 0
          then (case int_add ns hz of
                  Inl e \<Rightarrow> Inl e
                | Inr rns \<Rightarrow>
                   (case borrow_seconds rs bs of
                      Inl e \<Rightarrow> Inl e
                    | Inr Low_Overflow \<Rightarrow> Inr low_overflow
                    | Inr (Adjusted rs' bs') \<Rightarrow> subtract_seconds hz rs' bs' rns))
          else subtract_seconds hz rs bs ns))"

subsection \<open>The mathematical difference\<close>

text \<open>The value a \<open>struct timespec\<close> denotes: \<open>tv_sec + tv_nsec / hz\<close>.\<close>

definition timespec_value :: "int \<Rightarrow> timespec \<Rightarrow> real" where
  "timespec_value hz t = real_of_int (tv_sec t) + real_of_int (tv_nsec t) / real_of_int hz"

text \<open>The same value counted in sub-second units.\<close>

definition ticks :: "int \<Rightarrow> timespec \<Rightarrow> int" where
  "ticks hz t = tv_sec t * hz + tv_nsec t"

text \<open>
  The seconds and the sub-second part of the difference of two valid values, with the
  sub-second part normalised into \<open>[0, hz)\<close>.
\<close>

definition diff_sec :: "timespec \<Rightarrow> timespec \<Rightarrow> int" where
  "diff_sec a b = tv_sec a - tv_sec b - (if tv_nsec a < tv_nsec b then 1 else 0)"

definition diff_nsec :: "int \<Rightarrow> timespec \<Rightarrow> timespec \<Rightarrow> int" where
  "diff_nsec hz a b = tv_nsec a - tv_nsec b + (if tv_nsec a < tv_nsec b then hz else 0)"

section \<open>Properties\<close>

lemma wrap_time_t_id: "time_t_range x \<Longrightarrow> wrap_time_t x = x"
  by (simp add: wrap_time_t_def time_t_range_def TIME_T_MIN_def TIME_T_MAX_def)

lemma ckd_add_fits: "time_t_range (x + y) \<Longrightarrow> ckd_add x y = (False, x + y)"
  by (simp add: ckd_add_def wrap_time_t_id)

lemma ckd_sub_fits: "time_t_range (x - y) \<Longrightarrow> ckd_sub x y = (False, x - y)"
  by (simp add: ckd_sub_def wrap_time_t_id)

lemma subtract_seconds_fits:
  "time_t_range (rs - bs) \<Longrightarrow>
   subtract_seconds hz rs bs rns = Inr \<lparr>tv_sec = rs - bs, tv_nsec = rns\<rparr>"
  by (simp add: subtract_seconds_def ckd_sub_fits make_timespec_def)

lemma subtract_seconds_overflows:
  "\<not> time_t_range (rs - bs) \<Longrightarrow>
   subtract_seconds hz rs bs rns = (if 0 < bs then Inr low_overflow else high_overflow hz)"
  by (simp add: subtract_seconds_def ckd_sub_def)

lemma high_overflow_valid_hz:
  "valid_hz hz \<Longrightarrow> high_overflow hz = Inr \<lparr>tv_sec = TIME_T_MAX, tv_nsec = hz - 1\<rparr>"
  by (simp add: high_overflow_def int_sub_def make_timespec_def valid_hz_def
      INT_MIN_def INT_MAX_def)

lemma low_overflow_eq: "low_overflow = \<lparr>tv_sec = TIME_T_MIN, tv_nsec = 0\<rparr>"
  by (simp add: low_overflow_def make_timespec_def)

lemma borrow_seconds_fits:
  "time_t_range (bs + 1) \<Longrightarrow> borrow_seconds rs bs = Inr (Adjusted rs (bs + 1))"
  by (simp add: borrow_seconds_def ckd_add_fits)

lemma borrow_seconds_overflows:
  "\<not> time_t_range (bs + 1) \<Longrightarrow> time_t_range rs \<Longrightarrow>
   borrow_seconds rs bs = (if 0 \<le> rs then Inr (Adjusted (rs - 1) bs) else Inr Low_Overflow)"
  by (simp add: borrow_seconds_def ckd_add_def time_t_dec_def TYPE_SIGNED_time_t_def
      time_t_range_def TIME_T_MIN_def TIME_T_MAX_def)

lemma nsec_difference:
  assumes "valid_hz hz" and "valid_timespec hz a" and "valid_timespec hz b"
  shows "long_sub (tv_nsec a) (tv_nsec b) = Inr (tv_nsec a - tv_nsec b)"
    and "long_to_int (tv_nsec a - tv_nsec b) = tv_nsec a - tv_nsec b"
    and "tv_nsec a < tv_nsec b \<Longrightarrow>
         int_add (tv_nsec a - tv_nsec b) hz = Inr (tv_nsec a - tv_nsec b + hz)"
  using assms
  by (simp_all add: long_sub_def long_to_int_def int_add_def valid_hz_def valid_timespec_def
      INT_MIN_def INT_MAX_def LONG_MIN_def LONG_MAX_def)

lemma timespec_sub_no_borrow:
  assumes "valid_hz hz" and "valid_timespec hz a" and "valid_timespec hz b"
    and "\<not> tv_nsec a < tv_nsec b"
  shows "timespec_sub hz a b =
           subtract_seconds hz (tv_sec a) (tv_sec b) (tv_nsec a - tv_nsec b)"
  using assms(4) by (simp add: timespec_sub_def nsec_difference [OF assms(1-3)])

lemma timespec_sub_borrow:
  assumes "valid_hz hz" and "valid_timespec hz a" and "valid_timespec hz b"
    and "tv_nsec a < tv_nsec b"
  shows "timespec_sub hz a b =
           (case borrow_seconds (tv_sec a) (tv_sec b) of
              Inl e \<Rightarrow> Inl e
            | Inr Low_Overflow \<Rightarrow> Inr low_overflow
            | Inr (Adjusted rs' bs') \<Rightarrow>
                subtract_seconds hz rs' bs' (tv_nsec a - tv_nsec b + hz))"
  using assms(4) by (simp add: timespec_sub_def nsec_difference [OF assms(1-3)])

lemma timespec_sub_normalised:
  assumes hz: "valid_hz hz" and a: "valid_timespec hz a" and b: "valid_timespec hz b"
  shows "timespec_sub hz a b =
           Inr (if diff_sec a b < TIME_T_MIN then \<lparr>tv_sec = TIME_T_MIN, tv_nsec = 0\<rparr>
                else if TIME_T_MAX < diff_sec a b then \<lparr>tv_sec = TIME_T_MAX, tv_nsec = hz - 1\<rparr>
                else \<lparr>tv_sec = diff_sec a b, tv_nsec = diff_nsec hz a b\<rparr>)"
proof (cases "tv_nsec a < tv_nsec b")
  case False
  note sub = timespec_sub_no_borrow [OF hz a b False]
  show ?thesis
  proof (cases "time_t_range (tv_sec a - tv_sec b)")
    case True
    with False show ?thesis
      by (simp add: sub subtract_seconds_fits diff_sec_def diff_nsec_def time_t_range_def)
  next
    case over: False
    with False a b show ?thesis
      by (auto simp: sub subtract_seconds_overflows high_overflow_valid_hz [OF hz]
          low_overflow_eq diff_sec_def valid_timespec_def time_t_range_def
          TIME_T_MIN_def TIME_T_MAX_def)
  qed
next
  case True
  note sub = timespec_sub_borrow [OF hz a b True]
  from a have rs: "time_t_range (tv_sec a)"
    by (simp add: valid_timespec_def)
  show ?thesis
  proof (cases "time_t_range (tv_sec b + 1)")
    case fits: True
    show ?thesis
    proof (cases "time_t_range (tv_sec a - (tv_sec b + 1))")
      case True
      with \<open>tv_nsec a < tv_nsec b\<close> show ?thesis
        by (simp add: sub borrow_seconds_fits [OF fits] subtract_seconds_fits
            diff_sec_def diff_nsec_def time_t_range_def)
    next
      case False
      with \<open>tv_nsec a < tv_nsec b\<close> a b show ?thesis
        by (auto simp: sub borrow_seconds_fits [OF fits] subtract_seconds_overflows
            high_overflow_valid_hz [OF hz] low_overflow_eq diff_sec_def valid_timespec_def
            time_t_range_def TIME_T_MIN_def TIME_T_MAX_def)
    qed
  next
    case over: False
    with b have bs: "tv_sec b = TIME_T_MAX"
      by (simp add: valid_timespec_def time_t_range_def TIME_T_MIN_def TIME_T_MAX_def)
    show ?thesis
    proof (cases "0 \<le> tv_sec a")
      case True
      with rs have "time_t_range (tv_sec a - 1 - tv_sec b)"
        by (simp add: bs time_t_range_def TIME_T_MIN_def TIME_T_MAX_def)
      with True \<open>tv_nsec a < tv_nsec b\<close> show ?thesis
        by (simp add: sub borrow_seconds_overflows [OF over rs] subtract_seconds_fits
            diff_sec_def diff_nsec_def time_t_range_def)
    next
      case False
      then have jump: "borrow_seconds (tv_sec a) (tv_sec b) = Inr Low_Overflow"
        by (simp add: borrow_seconds_overflows [OF over rs])
      from False \<open>tv_nsec a < tv_nsec b\<close> have "diff_sec a b < TIME_T_MIN"
        by (simp add: diff_sec_def bs TIME_T_MIN_def TIME_T_MAX_def)
      then show ?thesis
        by (simp add: sub jump low_overflow_eq)
    qed
  qed
qed

subsection \<open>The value of the normalised difference\<close>

lemma diff_nsec_range:
  assumes "valid_timespec hz a" and "valid_timespec hz b"
  shows "0 \<le> diff_nsec hz a b" and "diff_nsec hz a b < hz"
  using assms by (simp_all add: diff_nsec_def valid_timespec_def)

lemma ticks_difference:
  "ticks hz a - ticks hz b = diff_sec a b * hz + diff_nsec hz a b"
  by (simp add: ticks_def diff_sec_def diff_nsec_def algebra_simps)

lemma timespec_value_ticks:
  "0 < hz \<Longrightarrow> timespec_value hz t = real_of_int (ticks hz t) / real_of_int hz"
  by (simp add: timespec_value_def ticks_def field_simps)

lemma value_difference_ticks:
  assumes "0 < hz"
  shows "timespec_value hz a - timespec_value hz b =
           real_of_int (diff_sec a b * hz + diff_nsec hz a b) / real_of_int hz"
  using assms
  by (simp add: timespec_value_ticks ticks_difference [symmetric] diff_divide_distrib)


lemma seconds_of_ticks:
  fixes hz :: int
  assumes "0 \<le> n" "n < hz"
  shows "(s * hz + n) div hz = s"
  using assms by simp

lemma value_eq_iff:
  assumes "0 < hz"
  shows "real_of_int x / real_of_int hz = real_of_int y / real_of_int hz \<longleftrightarrow> x = y"
  using assms by simp

lemma true_seconds:
  assumes "valid_hz hz" and "valid_timespec hz a" and "valid_timespec hz b"
  shows "\<lfloor>timespec_value hz a - timespec_value hz b\<rfloor> = diff_sec a b"
proof -
  from assms(1) have hz: "0 < hz" by (simp add: valid_hz_def)
  have "\<lfloor>timespec_value hz a - timespec_value hz b\<rfloor> =
        (diff_sec a b * hz + diff_nsec hz a b) div hz"
    by (simp only: value_difference_ticks [OF hz] floor_divide_of_int_eq)
  also have "\<dots> = diff_sec a b"
    by (rule seconds_of_ticks) (rule diff_nsec_range [OF assms(2,3)])+
  finally show ?thesis .
qed

lemma representable_normalised:
  assumes "valid_hz hz" and "valid_timespec hz a" and "valid_timespec hz b"
    and "valid_timespec hz r"
    and "timespec_value hz r = timespec_value hz a - timespec_value hz b"
  shows "r = \<lparr>tv_sec = diff_sec a b, tv_nsec = diff_nsec hz a b\<rparr>"
    and "time_t_range (diff_sec a b)"
proof -
  from assms(1) have hz: "0 < hz" by (simp add: valid_hz_def)
  from assms(4) have r: "0 \<le> tv_nsec r" "tv_nsec r < hz"
    by (simp_all add: valid_timespec_def)
  note d = diff_nsec_range [OF assms(2,3)]
  have "real_of_int (ticks hz r) / real_of_int hz = timespec_value hz r"
    by (simp only: timespec_value_ticks [OF hz])
  also have "\<dots> = timespec_value hz a - timespec_value hz b"
    by (rule assms(5))
  also have "\<dots> = real_of_int (diff_sec a b * hz + diff_nsec hz a b) / real_of_int hz"
    by (rule value_difference_ticks [OF hz])
  finally have "real_of_int (ticks hz r) / real_of_int hz =
        real_of_int (diff_sec a b * hz + diff_nsec hz a b) / real_of_int hz" .
  then have "ticks hz r = diff_sec a b * hz + diff_nsec hz a b"
    by (simp only: value_eq_iff [OF hz])
  then have eq: "tv_sec r * hz + tv_nsec r = diff_sec a b * hz + diff_nsec hz a b"
    by (simp only: ticks_def)
  have "tv_sec r = (tv_sec r * hz + tv_nsec r) div hz"
    by (rule seconds_of_ticks [OF r, symmetric])
  also have "\<dots> = diff_sec a b"
    by (simp only: eq seconds_of_ticks [OF d])
  finally have s: "tv_sec r = diff_sec a b" .
  with eq have "tv_nsec r = diff_nsec hz a b" by simp
  with s show "r = \<lparr>tv_sec = diff_sec a b, tv_nsec = diff_nsec hz a b\<rparr>" by simp
  from s assms(4) show "time_t_range (diff_sec a b)" by (simp add: valid_timespec_def)
qed

lemma timespec_sub_representable:
  assumes "valid_hz hz" and "valid_timespec hz a" and "valid_timespec hz b"
    and "valid_timespec hz r"
    and "timespec_value hz r = timespec_value hz a - timespec_value hz b"
  shows "timespec_sub hz a b = Inr r"
proof -
  note n = representable_normalised [OF assms]
  from n(2) have "\<not> diff_sec a b < TIME_T_MIN" "\<not> TIME_T_MAX < diff_sec a b"
    by (simp_all add: time_t_range_def)
  then show ?thesis
    by (simp add: timespec_sub_normalised [OF assms(1-3)] n(1) [symmetric])
qed

section \<open>The claims\<close>

lemmas concrete_defs =
  TIMESPEC_HZ_def valid_hz_def INT_MAX_def valid_timespec_def time_t_range_def
  TIME_T_MIN_def TIME_T_MAX_def

text \<open>
  C1. For valid \<open>a\<close> and \<open>b\<close>, if the mathematical difference of their values is the value
  of a \<open>struct timespec\<close> \<open>r\<close> whose seconds lie in \<open>[SEC_MIN, SEC_MAX]\<close> and whose
  sub-second part lies in \<open>[0, HZ)\<close>, then \<open>timespec_sub (a, b)\<close> returns \<open>r\<close>. With
  \<open>HZ = 1000\<close>, subtracting \<open>{3, 200}\<close> from \<open>{5, 100}\<close> yields \<open>{1, 900}\<close>.
\<close>

theorem timespec_sub_exact:
  "(valid_hz hz \<and> valid_timespec hz a \<and> valid_timespec hz b \<and> valid_timespec hz r \<and>
    timespec_value hz r = timespec_value hz a - timespec_value hz b
      \<longrightarrow> timespec_sub hz a b = Inr r) \<and>
   timespec_sub 1000 \<lparr>tv_sec = 5, tv_nsec = 100\<rparr> \<lparr>tv_sec = 3, tv_nsec = 200\<rparr> =
     Inr \<lparr>tv_sec = 1, tv_nsec = 900\<rparr>"
proof (intro conjI impI)
  assume "valid_hz hz \<and> valid_timespec hz a \<and> valid_timespec hz b \<and> valid_timespec hz r \<and>
    timespec_value hz r = timespec_value hz a - timespec_value hz b"
  then show "timespec_sub hz a b = Inr r"
    by (intro timespec_sub_representable) simp_all
next
  have "valid_hz 1000"
    by (simp add: valid_hz_def INT_MAX_def)
  moreover have "valid_timespec 1000 \<lparr>tv_sec = 5, tv_nsec = 100\<rparr>"
    and "valid_timespec 1000 \<lparr>tv_sec = 3, tv_nsec = 200\<rparr>"
    by (simp_all add: valid_timespec_def time_t_range_def TIME_T_MIN_def TIME_T_MAX_def)
  ultimately show "timespec_sub 1000 \<lparr>tv_sec = 5, tv_nsec = 100\<rparr> \<lparr>tv_sec = 3, tv_nsec = 200\<rparr> =
     Inr \<lparr>tv_sec = 1, tv_nsec = 900\<rparr>"
    by (simp add: timespec_sub_normalised diff_sec_def diff_nsec_def TIME_T_MIN_def TIME_T_MAX_def)
qed

theorem timespec_sub_exact_witness:
  "valid_hz TIMESPEC_HZ \<and>
   valid_timespec TIMESPEC_HZ \<lparr>tv_sec = 7, tv_nsec = 250000000\<rparr> \<and>
   valid_timespec TIMESPEC_HZ \<lparr>tv_sec = 2, tv_nsec = 750000000\<rparr> \<and>
   valid_timespec TIMESPEC_HZ \<lparr>tv_sec = 4, tv_nsec = 500000000\<rparr> \<and>
   timespec_value TIMESPEC_HZ \<lparr>tv_sec = 4, tv_nsec = 500000000\<rparr> =
     timespec_value TIMESPEC_HZ \<lparr>tv_sec = 7, tv_nsec = 250000000\<rparr> -
     timespec_value TIMESPEC_HZ \<lparr>tv_sec = 2, tv_nsec = 750000000\<rparr> \<and>
   timespec_sub TIMESPEC_HZ \<lparr>tv_sec = 7, tv_nsec = 250000000\<rparr>
     \<lparr>tv_sec = 2, tv_nsec = 750000000\<rparr> = Inr \<lparr>tv_sec = 4, tv_nsec = 500000000\<rparr>"
proof -
  have h: "valid_hz TIMESPEC_HZ \<and>
   valid_timespec TIMESPEC_HZ \<lparr>tv_sec = 7, tv_nsec = 250000000\<rparr> \<and>
   valid_timespec TIMESPEC_HZ \<lparr>tv_sec = 2, tv_nsec = 750000000\<rparr> \<and>
   valid_timespec TIMESPEC_HZ \<lparr>tv_sec = 4, tv_nsec = 500000000\<rparr> \<and>
   timespec_value TIMESPEC_HZ \<lparr>tv_sec = 4, tv_nsec = 500000000\<rparr> =
     timespec_value TIMESPEC_HZ \<lparr>tv_sec = 7, tv_nsec = 250000000\<rparr> -
     timespec_value TIMESPEC_HZ \<lparr>tv_sec = 2, tv_nsec = 750000000\<rparr>"
    by (simp add: TIMESPEC_HZ_def valid_hz_def INT_MAX_def valid_timespec_def time_t_range_def
        TIME_T_MIN_def TIME_T_MAX_def timespec_value_def)
  with timespec_sub_exact [of TIMESPEC_HZ "\<lparr>tv_sec = 7, tv_nsec = 250000000\<rparr>"
      "\<lparr>tv_sec = 2, tv_nsec = 750000000\<rparr>" "\<lparr>tv_sec = 4, tv_nsec = 500000000\<rparr>"]
  show ?thesis by blast
qed


text \<open>
  C2. For valid \<open>a\<close> and \<open>b\<close>, if the seconds of the mathematical difference would be
  below \<open>SEC_MIN\<close>, then \<open>timespec_sub (a, b)\<close> returns \<open>{SEC_MIN, 0}\<close>. In particular
  \<open>timespec_sub ({SEC_MIN, 0}, {1, 0}) = {SEC_MIN, 0}\<close>.
\<close>

theorem timespec_sub_low_clamp:
  assumes "valid_hz hz"
  shows "(valid_timespec hz a \<and> valid_timespec hz b \<and>
          \<lfloor>timespec_value hz a - timespec_value hz b\<rfloor> < TIME_T_MIN
            \<longrightarrow> timespec_sub hz a b = Inr \<lparr>tv_sec = TIME_T_MIN, tv_nsec = 0\<rparr>) \<and>
         timespec_sub hz \<lparr>tv_sec = TIME_T_MIN, tv_nsec = 0\<rparr> \<lparr>tv_sec = 1, tv_nsec = 0\<rparr> =
           Inr \<lparr>tv_sec = TIME_T_MIN, tv_nsec = 0\<rparr>"
proof (intro conjI impI)
  assume h: "valid_timespec hz a \<and> valid_timespec hz b \<and>
          \<lfloor>timespec_value hz a - timespec_value hz b\<rfloor> < TIME_T_MIN"
  then have a: "valid_timespec hz a" and b: "valid_timespec hz b" by simp_all
  from h have "diff_sec a b < TIME_T_MIN"
    by (simp add: true_seconds [OF assms a b])
  then show "timespec_sub hz a b = Inr \<lparr>tv_sec = TIME_T_MIN, tv_nsec = 0\<rparr>"
    by (simp add: timespec_sub_normalised [OF assms a b])
next
  from assms have "valid_timespec hz \<lparr>tv_sec = TIME_T_MIN, tv_nsec = 0\<rparr>"
    and "valid_timespec hz \<lparr>tv_sec = 1, tv_nsec = 0\<rparr>"
    by (simp_all add: concrete_defs)
  then show "timespec_sub hz \<lparr>tv_sec = TIME_T_MIN, tv_nsec = 0\<rparr> \<lparr>tv_sec = 1, tv_nsec = 0\<rparr> =
           Inr \<lparr>tv_sec = TIME_T_MIN, tv_nsec = 0\<rparr>"
    by (simp add: timespec_sub_normalised [OF assms] diff_sec_def)
qed

theorem timespec_sub_low_clamp_witness:
  "valid_hz TIMESPEC_HZ \<and>
   valid_timespec TIMESPEC_HZ \<lparr>tv_sec = TIME_T_MIN, tv_nsec = 5\<rparr> \<and>
   valid_timespec TIMESPEC_HZ \<lparr>tv_sec = 0, tv_nsec = 6\<rparr> \<and>
   \<lfloor>timespec_value TIMESPEC_HZ \<lparr>tv_sec = TIME_T_MIN, tv_nsec = 5\<rparr> -
    timespec_value TIMESPEC_HZ \<lparr>tv_sec = 0, tv_nsec = 6\<rparr>\<rfloor> < TIME_T_MIN \<and>
   timespec_sub TIMESPEC_HZ \<lparr>tv_sec = TIME_T_MIN, tv_nsec = 5\<rparr> \<lparr>tv_sec = 0, tv_nsec = 6\<rparr> =
     Inr \<lparr>tv_sec = TIME_T_MIN, tv_nsec = 0\<rparr>"
proof -
  have hz: "valid_hz TIMESPEC_HZ"
    and a: "valid_timespec TIMESPEC_HZ \<lparr>tv_sec = TIME_T_MIN, tv_nsec = 5\<rparr>"
    and b: "valid_timespec TIMESPEC_HZ \<lparr>tv_sec = 0, tv_nsec = 6\<rparr>"
    by (simp_all add: concrete_defs)
  have below: "\<lfloor>timespec_value TIMESPEC_HZ \<lparr>tv_sec = TIME_T_MIN, tv_nsec = 5\<rparr> -
    timespec_value TIMESPEC_HZ \<lparr>tv_sec = 0, tv_nsec = 6\<rparr>\<rfloor> < TIME_T_MIN"
    by (simp add: true_seconds [OF hz a b] diff_sec_def)
  from timespec_sub_low_clamp [OF hz, of "\<lparr>tv_sec = TIME_T_MIN, tv_nsec = 5\<rparr>"
      "\<lparr>tv_sec = 0, tv_nsec = 6\<rparr>"] hz a b below
  show ?thesis by blast
qed

text \<open>
  C3. For valid \<open>a\<close> and \<open>b\<close>, if the seconds of the mathematical difference would
  exceed \<open>SEC_MAX\<close>, then \<open>timespec_sub (a, b)\<close> returns \<open>{SEC_MAX, HZ - 1}\<close>. In
  particular \<open>timespec_sub ({SEC_MAX, HZ - 1}, {-1, 0}) = {SEC_MAX, HZ - 1}\<close>.
\<close>

theorem timespec_sub_high_clamp:
  assumes "valid_hz hz"
  shows "(valid_timespec hz a \<and> valid_timespec hz b \<and>
          TIME_T_MAX < \<lfloor>timespec_value hz a - timespec_value hz b\<rfloor>
            \<longrightarrow> timespec_sub hz a b = Inr \<lparr>tv_sec = TIME_T_MAX, tv_nsec = hz - 1\<rparr>) \<and>
         timespec_sub hz \<lparr>tv_sec = TIME_T_MAX, tv_nsec = hz - 1\<rparr> \<lparr>tv_sec = - 1, tv_nsec = 0\<rparr> =
           Inr \<lparr>tv_sec = TIME_T_MAX, tv_nsec = hz - 1\<rparr>"
proof (intro conjI impI)
  assume h: "valid_timespec hz a \<and> valid_timespec hz b \<and>
          TIME_T_MAX < \<lfloor>timespec_value hz a - timespec_value hz b\<rfloor>"
  then have a: "valid_timespec hz a" and b: "valid_timespec hz b" by simp_all
  from h have "TIME_T_MAX < diff_sec a b"
    by (simp add: true_seconds [OF assms a b])
  moreover from this have "\<not> diff_sec a b < TIME_T_MIN"
    by (simp add: TIME_T_MIN_def TIME_T_MAX_def)
  ultimately show "timespec_sub hz a b = Inr \<lparr>tv_sec = TIME_T_MAX, tv_nsec = hz - 1\<rparr>"
    by (simp add: timespec_sub_normalised [OF assms a b])
next
  from assms have "valid_timespec hz \<lparr>tv_sec = TIME_T_MAX, tv_nsec = hz - 1\<rparr>"
    and "valid_timespec hz \<lparr>tv_sec = - 1, tv_nsec = 0\<rparr>"
    by (simp_all add: concrete_defs)
  then show "timespec_sub hz \<lparr>tv_sec = TIME_T_MAX, tv_nsec = hz - 1\<rparr>
      \<lparr>tv_sec = - 1, tv_nsec = 0\<rparr> = Inr \<lparr>tv_sec = TIME_T_MAX, tv_nsec = hz - 1\<rparr>"
    using assms
    by (simp add: timespec_sub_normalised [OF assms] diff_sec_def valid_hz_def
        TIME_T_MIN_def TIME_T_MAX_def)
qed

theorem timespec_sub_high_clamp_witness:
  "valid_hz TIMESPEC_HZ \<and>
   valid_timespec TIMESPEC_HZ \<lparr>tv_sec = TIME_T_MAX - 3, tv_nsec = 1\<rparr> \<and>
   valid_timespec TIMESPEC_HZ \<lparr>tv_sec = - 5, tv_nsec = 2\<rparr> \<and>
   TIME_T_MAX < \<lfloor>timespec_value TIMESPEC_HZ \<lparr>tv_sec = TIME_T_MAX - 3, tv_nsec = 1\<rparr> -
    timespec_value TIMESPEC_HZ \<lparr>tv_sec = - 5, tv_nsec = 2\<rparr>\<rfloor> \<and>
   timespec_sub TIMESPEC_HZ \<lparr>tv_sec = TIME_T_MAX - 3, tv_nsec = 1\<rparr> \<lparr>tv_sec = - 5, tv_nsec = 2\<rparr> =
     Inr \<lparr>tv_sec = TIME_T_MAX, tv_nsec = TIMESPEC_HZ - 1\<rparr>"
proof -
  have hz: "valid_hz TIMESPEC_HZ"
    and a: "valid_timespec TIMESPEC_HZ \<lparr>tv_sec = TIME_T_MAX - 3, tv_nsec = 1\<rparr>"
    and b: "valid_timespec TIMESPEC_HZ \<lparr>tv_sec = - 5, tv_nsec = 2\<rparr>"
    by (simp_all add: concrete_defs)
  have above: "TIME_T_MAX < \<lfloor>timespec_value TIMESPEC_HZ \<lparr>tv_sec = TIME_T_MAX - 3, tv_nsec = 1\<rparr> -
    timespec_value TIMESPEC_HZ \<lparr>tv_sec = - 5, tv_nsec = 2\<rparr>\<rfloor>"
    by (simp add: true_seconds [OF hz a b] diff_sec_def)
  from timespec_sub_high_clamp [OF hz, of "\<lparr>tv_sec = TIME_T_MAX - 3, tv_nsec = 1\<rparr>"
      "\<lparr>tv_sec = - 5, tv_nsec = 2\<rparr>"] hz a b above
  show ?thesis by blast
qed

text \<open>
  C4. For all \<open>a\<close> and \<open>b\<close> whose \<open>tv_nsec\<close> fields lie in \<open>[0, HZ)\<close>,
  \<open>timespec_sub (a, b)\<close> returns a value whose \<open>tv_nsec\<close> field lies in \<open>[0, HZ)\<close>
  again: the result is a valid \<open>struct timespec\<close> and can be passed back in.
\<close>

theorem timespec_sub_closed:
  assumes "valid_hz hz" and "valid_timespec hz a" and "valid_timespec hz b"
  shows "\<exists>r. timespec_sub hz a b = Inr r \<and> 0 \<le> tv_nsec r \<and> tv_nsec r < hz \<and>
             valid_timespec hz r"
proof -
  from assms(1) have hz: "0 < hz" by (simp add: valid_hz_def)
  note d = diff_nsec_range [OF assms(2,3)]
  show ?thesis
    using hz d
    by (simp add: timespec_sub_normalised [OF assms] valid_timespec_def time_t_range_def
        TIME_T_MIN_def TIME_T_MAX_def)
qed

theorem timespec_sub_closed_witness:
  "valid_hz TIMESPEC_HZ \<and>
   valid_timespec TIMESPEC_HZ \<lparr>tv_sec = 10, tv_nsec = 1\<rparr> \<and>
   valid_timespec TIMESPEC_HZ \<lparr>tv_sec = 4, tv_nsec = 999999999\<rparr> \<and>
   (\<exists>r. timespec_sub TIMESPEC_HZ \<lparr>tv_sec = 10, tv_nsec = 1\<rparr>
          \<lparr>tv_sec = 4, tv_nsec = 999999999\<rparr> = Inr r \<and>
        0 \<le> tv_nsec r \<and> tv_nsec r < TIMESPEC_HZ \<and> valid_timespec TIMESPEC_HZ r)"
proof -
  have hz: "valid_hz TIMESPEC_HZ"
    and a: "valid_timespec TIMESPEC_HZ \<lparr>tv_sec = 10, tv_nsec = 1\<rparr>"
    and b: "valid_timespec TIMESPEC_HZ \<lparr>tv_sec = 4, tv_nsec = 999999999\<rparr>"
    by (simp_all add: concrete_defs)
  from timespec_sub_closed [OF hz a b] hz a b show ?thesis by blast
qed

text \<open>
  C5, as amended. When \<open>a.tv_nsec - b.tv_nsec\<close> is negative and incrementing the
  subtrahend's seconds overflows, the function decrements the minuend's seconds whenever
  they are strictly greater than \<open>- TYPE_SIGNED (time_t) = -1\<close>, and continues with the
  checked subtraction; whenever the minuend's seconds are negative it jumps to
  \<open>low_overflow\<close> and returns \<open>{SEC_MIN, 0}\<close>.
\<close>

theorem borrow_from_minuend:
  assumes "valid_hz hz" and "valid_timespec hz a" and "valid_timespec hz b"
    and "tv_nsec a - tv_nsec b < 0" and "fst (ckd_add (tv_sec b) 1)"
  shows "(- 1 < tv_sec a \<longrightarrow>
            borrow_seconds (tv_sec a) (tv_sec b) = Inr (Adjusted (tv_sec a - 1) (tv_sec b)) \<and>
            timespec_sub hz a b =
              subtract_seconds hz (tv_sec a - 1) (tv_sec b) (tv_nsec a - tv_nsec b + hz)) \<and>
         (tv_sec a \<le> - 1 \<longrightarrow>
            borrow_seconds (tv_sec a) (tv_sec b) = Inr Low_Overflow \<and>
            timespec_sub hz a b = Inr \<lparr>tv_sec = TIME_T_MIN, tv_nsec = 0\<rparr>)"
proof -
  from assms(4) have borrow: "tv_nsec a < tv_nsec b" by simp
  from assms(2) have rs: "time_t_range (tv_sec a)"
    by (simp add: valid_timespec_def)
  from assms(5) have over: "\<not> time_t_range (tv_sec b + 1)"
    by (simp add: ckd_add_def)
  note step = borrow_seconds_overflows [OF over rs]
  note sub = timespec_sub_borrow [OF assms(1-3) borrow]
  show ?thesis
    by (simp add: sub step low_overflow_eq)
qed

theorem borrow_from_minuend_witness:
  "valid_hz TIMESPEC_HZ \<and>
   valid_timespec TIMESPEC_HZ \<lparr>tv_sec = 0, tv_nsec = 0\<rparr> \<and>
   valid_timespec TIMESPEC_HZ \<lparr>tv_sec = - 1, tv_nsec = 0\<rparr> \<and>
   valid_timespec TIMESPEC_HZ \<lparr>tv_sec = TIME_T_MAX, tv_nsec = 1\<rparr> \<and>
   fst (ckd_add TIME_T_MAX 1) \<and>
   borrow_seconds 0 TIME_T_MAX = Inr (Adjusted (- 1) TIME_T_MAX) \<and>
   timespec_sub TIMESPEC_HZ \<lparr>tv_sec = 0, tv_nsec = 0\<rparr> \<lparr>tv_sec = TIME_T_MAX, tv_nsec = 1\<rparr> =
     Inr \<lparr>tv_sec = TIME_T_MIN, tv_nsec = 999999999\<rparr> \<and>
   borrow_seconds (- 1) TIME_T_MAX = Inr Low_Overflow \<and>
   timespec_sub TIMESPEC_HZ \<lparr>tv_sec = - 1, tv_nsec = 0\<rparr> \<lparr>tv_sec = TIME_T_MAX, tv_nsec = 1\<rparr> =
     Inr \<lparr>tv_sec = TIME_T_MIN, tv_nsec = 0\<rparr>"
proof -
  have hz: "valid_hz TIMESPEC_HZ"
    and a0: "valid_timespec TIMESPEC_HZ \<lparr>tv_sec = 0, tv_nsec = 0\<rparr>"
    and a1: "valid_timespec TIMESPEC_HZ \<lparr>tv_sec = - 1, tv_nsec = 0\<rparr>"
    and b: "valid_timespec TIMESPEC_HZ \<lparr>tv_sec = TIME_T_MAX, tv_nsec = 1\<rparr>"
    by (simp_all add: concrete_defs)
  have over: "fst (ckd_add TIME_T_MAX 1)"
    by (simp add: ckd_add_def time_t_range_def TIME_T_MIN_def TIME_T_MAX_def)
  have fits: "subtract_seconds TIMESPEC_HZ (- 1) TIME_T_MAX 999999999 =
      Inr \<lparr>tv_sec = TIME_T_MIN, tv_nsec = 999999999\<rparr>"
    by (subst subtract_seconds_fits) (simp_all add: time_t_range_def TIME_T_MIN_def TIME_T_MAX_def)
  from borrow_from_minuend [OF hz a0 b] borrow_from_minuend [OF hz a1 b] hz a0 a1 b over fits
  show ?thesis by (simp add: TIMESPEC_HZ_def)
qed

text \<open>
  C5, as stated, has the minuend decremented whenever its seconds are above \<open>SEC_MIN\<close>
  and the jump taken only at \<open>SEC_MIN\<close>. With minuend seconds \<open>-5\<close> and subtrahend
  seconds \<open>SEC_MAX\<close> the increment overflows, \<open>-5\<close> is above \<open>SEC_MIN\<close>, and the code
  jumps to \<open>low_overflow\<close> without decrementing.
\<close>

theorem borrow_short_circuit_counterexample:
  "fst (ckd_add TIME_T_MAX 1) \<and> TIME_T_MIN < - 5 \<and>
   borrow_seconds (- 5) TIME_T_MAX = Inr Low_Overflow \<and>
   borrow_seconds (- 5) TIME_T_MAX \<noteq> Inr (Adjusted (- 5 - 1) TIME_T_MAX)"
  by (simp add: borrow_seconds_def ckd_add_def TYPE_SIGNED_time_t_def time_t_range_def
      TIME_T_MIN_def TIME_T_MAX_def)

text \<open>
  The jump changes no result: had a negative minuend above \<open>SEC_MIN\<close> been decremented,
  the checked subtraction of \<open>SEC_MAX\<close> would have overflowed with a positive subtrahend
  and produced the same low clamp.
\<close>

lemma decrement_would_clamp_low:
  assumes "time_t_range rs" and "rs < 0" and "TIME_T_MIN < rs"
  shows "subtract_seconds hz (rs - 1) TIME_T_MAX rns = Inr low_overflow"
  using assms
  by (simp add: subtract_seconds_def ckd_sub_def time_t_range_def TIME_T_MIN_def TIME_T_MAX_def)

text \<open>
  C6. Let \<open>rs\<close> and \<open>bs\<close> be the adjusted minuend and subtrahend seconds of valid \<open>a\<close>
  and \<open>b\<close>: the seconds of \<open>a\<close> and \<open>b\<close> when \<open>a.tv_nsec - b.tv_nsec\<close> is not
  negative, and what the borrow leaves of them when it is. When the checked subtraction
  of \<open>bs\<close> from \<open>rs\<close> overflows, \<open>timespec_sub (a, b)\<close> returns \<open>{SEC_MIN, 0}\<close> if
  \<open>bs\<close> is strictly positive and \<open>{SEC_MAX, HZ - 1}\<close> otherwise, zero included.
\<close>

theorem overflow_direction:
  assumes "valid_hz hz" and "valid_timespec hz a" and "valid_timespec hz b"
    and "if tv_nsec a - tv_nsec b < 0
         then borrow_seconds (tv_sec a) (tv_sec b) = Inr (Adjusted rs bs)
         else rs = tv_sec a \<and> bs = tv_sec b"
    and "fst (ckd_sub rs bs)"
  shows "timespec_sub hz a b =
           (if 0 < bs then Inr \<lparr>tv_sec = TIME_T_MIN, tv_nsec = 0\<rparr>
            else Inr \<lparr>tv_sec = TIME_T_MAX, tv_nsec = hz - 1\<rparr>)"
proof -
  from assms(5) have over: "\<not> time_t_range (rs - bs)"
    by (simp add: ckd_sub_def)
  note clamp = subtract_seconds_overflows [OF over, of hz]
  show ?thesis
  proof (cases "tv_nsec a < tv_nsec b")
    case True
    with assms(4) have "borrow_seconds (tv_sec a) (tv_sec b) = Inr (Adjusted rs bs)"
      by simp
    then have "timespec_sub hz a b =
        subtract_seconds hz rs bs (tv_nsec a - tv_nsec b + hz)"
      by (simp add: timespec_sub_borrow [OF assms(1-3) True])
    then show ?thesis
      by (simp add: clamp low_overflow_eq high_overflow_valid_hz [OF assms(1)])
  next
    case False
    with assms(4) have "rs = tv_sec a" and "bs = tv_sec b"
      by simp_all
    then have "timespec_sub hz a b = subtract_seconds hz rs bs (tv_nsec a - tv_nsec b)"
      by (simp add: timespec_sub_no_borrow [OF assms(1-3) False])
    then show ?thesis
      by (simp add: clamp low_overflow_eq high_overflow_valid_hz [OF assms(1)])
  qed
qed

theorem overflow_direction_witness:
  "valid_hz TIMESPEC_HZ \<and>
   valid_timespec TIMESPEC_HZ \<lparr>tv_sec = TIME_T_MIN, tv_nsec = 5\<rparr> \<and>
   valid_timespec TIMESPEC_HZ \<lparr>tv_sec = 0, tv_nsec = 6\<rparr> \<and>
   borrow_seconds TIME_T_MIN 0 = Inr (Adjusted TIME_T_MIN 1) \<and>
   fst (ckd_sub TIME_T_MIN 1) \<and>
   timespec_sub TIMESPEC_HZ \<lparr>tv_sec = TIME_T_MIN, tv_nsec = 5\<rparr> \<lparr>tv_sec = 0, tv_nsec = 6\<rparr> =
     Inr \<lparr>tv_sec = TIME_T_MIN, tv_nsec = 0\<rparr> \<and>
   valid_timespec TIMESPEC_HZ \<lparr>tv_sec = 0, tv_nsec = 7\<rparr> \<and>
   valid_timespec TIMESPEC_HZ \<lparr>tv_sec = TIME_T_MIN, tv_nsec = 0\<rparr> \<and>
   fst (ckd_sub 0 TIME_T_MIN) \<and>
   timespec_sub TIMESPEC_HZ \<lparr>tv_sec = 0, tv_nsec = 7\<rparr> \<lparr>tv_sec = TIME_T_MIN, tv_nsec = 0\<rparr> =
     Inr \<lparr>tv_sec = TIME_T_MAX, tv_nsec = TIMESPEC_HZ - 1\<rparr>"
proof -
  have hz: "valid_hz TIMESPEC_HZ"
    and a1: "valid_timespec TIMESPEC_HZ \<lparr>tv_sec = TIME_T_MIN, tv_nsec = 5\<rparr>"
    and b1: "valid_timespec TIMESPEC_HZ \<lparr>tv_sec = 0, tv_nsec = 6\<rparr>"
    and a2: "valid_timespec TIMESPEC_HZ \<lparr>tv_sec = 0, tv_nsec = 7\<rparr>"
    and b2: "valid_timespec TIMESPEC_HZ \<lparr>tv_sec = TIME_T_MIN, tv_nsec = 0\<rparr>"
    by (simp_all add: concrete_defs)
  have adj: "borrow_seconds TIME_T_MIN 0 = Inr (Adjusted TIME_T_MIN 1)"
    by (subst borrow_seconds_fits) (simp_all add: time_t_range_def TIME_T_MIN_def TIME_T_MAX_def)
  have low: "fst (ckd_sub TIME_T_MIN 1)" and high: "fst (ckd_sub 0 TIME_T_MIN)"
    by (simp_all add: ckd_sub_def time_t_range_def TIME_T_MIN_def TIME_T_MAX_def)
  have neg: "\<not> 0 < TIME_T_MIN"
    by (simp add: TIME_T_MIN_def)
  have low_result: "timespec_sub TIMESPEC_HZ \<lparr>tv_sec = TIME_T_MIN, tv_nsec = 5\<rparr>
      \<lparr>tv_sec = 0, tv_nsec = 6\<rparr> = Inr \<lparr>tv_sec = TIME_T_MIN, tv_nsec = 0\<rparr>"
    using overflow_direction [OF hz a1 b1, of TIME_T_MIN 1] adj low by simp
  have high_result: "timespec_sub TIMESPEC_HZ \<lparr>tv_sec = 0, tv_nsec = 7\<rparr>
      \<lparr>tv_sec = TIME_T_MIN, tv_nsec = 0\<rparr> = Inr \<lparr>tv_sec = TIME_T_MAX, tv_nsec = TIMESPEC_HZ - 1\<rparr>"
    using overflow_direction [OF hz a2 b2, of 0 TIME_T_MIN] high neg by simp
  from hz a1 b1 a2 b2 adj low high low_result high_result show ?thesis
    by blast
qed

text \<open>
  The adjusted subtrahend seconds are never zero when the checked subtraction overflows:
  subtracting zero from a \<open>time_t\<close> cannot overflow, so the case "exactly zero" of C6
  falls to the high clamp without ever being taken.
\<close>

lemma zero_subtrahend_never_overflows:
  "time_t_range rs \<Longrightarrow> \<not> fst (ckd_sub rs 0)"
  by (simp add: ckd_sub_def)

text \<open>
  C7. A difference whose seconds are exactly \<open>SEC_MIN\<close> or \<open>SEC_MAX\<close> is returned as
  it is, sub-second part included. \<open>timespec_sub ({SEC_MIN + 1, 0}, {1, 0})\<close> is
  \<open>{SEC_MIN, 0}\<close> and \<open>timespec_sub ({SEC_MIN + 2, 0}, {1, 0})\<close> is \<open>{SEC_MIN + 1, 0}\<close>.
\<close>

theorem boundary_not_clamped:
  assumes "valid_hz hz"
  shows "(valid_timespec hz a \<and> valid_timespec hz b \<and> valid_timespec hz r \<and>
          timespec_value hz r = timespec_value hz a - timespec_value hz b \<and>
          (tv_sec r = TIME_T_MIN \<or> tv_sec r = TIME_T_MAX)
            \<longrightarrow> timespec_sub hz a b = Inr r) \<and>
         timespec_sub hz \<lparr>tv_sec = TIME_T_MIN + 1, tv_nsec = 0\<rparr> \<lparr>tv_sec = 1, tv_nsec = 0\<rparr> =
           Inr \<lparr>tv_sec = TIME_T_MIN, tv_nsec = 0\<rparr> \<and>
         timespec_sub hz \<lparr>tv_sec = TIME_T_MIN + 2, tv_nsec = 0\<rparr> \<lparr>tv_sec = 1, tv_nsec = 0\<rparr> =
           Inr \<lparr>tv_sec = TIME_T_MIN + 1, tv_nsec = 0\<rparr>"
proof (intro conjI impI)
  assume "valid_timespec hz a \<and> valid_timespec hz b \<and> valid_timespec hz r \<and>
          timespec_value hz r = timespec_value hz a - timespec_value hz b \<and>
          (tv_sec r = TIME_T_MIN \<or> tv_sec r = TIME_T_MAX)"
  with assms show "timespec_sub hz a b = Inr r"
    by (intro timespec_sub_representable) simp_all
next
  from assms have one: "valid_timespec hz \<lparr>tv_sec = 1, tv_nsec = 0\<rparr>"
    and m1: "valid_timespec hz \<lparr>tv_sec = TIME_T_MIN + 1, tv_nsec = 0\<rparr>"
    and m2: "valid_timespec hz \<lparr>tv_sec = TIME_T_MIN + 2, tv_nsec = 0\<rparr>"
    by (simp_all add: concrete_defs)
  show "timespec_sub hz \<lparr>tv_sec = TIME_T_MIN + 1, tv_nsec = 0\<rparr> \<lparr>tv_sec = 1, tv_nsec = 0\<rparr> =
           Inr \<lparr>tv_sec = TIME_T_MIN, tv_nsec = 0\<rparr>"
    by (subst timespec_sub_normalised [OF assms m1 one])
      (simp add: diff_sec_def diff_nsec_def TIME_T_MIN_def TIME_T_MAX_def)
  show "timespec_sub hz \<lparr>tv_sec = TIME_T_MIN + 2, tv_nsec = 0\<rparr> \<lparr>tv_sec = 1, tv_nsec = 0\<rparr> =
           Inr \<lparr>tv_sec = TIME_T_MIN + 1, tv_nsec = 0\<rparr>"
    by (subst timespec_sub_normalised [OF assms m2 one])
      (simp add: diff_sec_def diff_nsec_def TIME_T_MIN_def TIME_T_MAX_def)
qed

theorem boundary_not_clamped_witness:
  "valid_hz TIMESPEC_HZ \<and>
   valid_timespec TIMESPEC_HZ \<lparr>tv_sec = TIME_T_MAX - 1, tv_nsec = 4\<rparr> \<and>
   valid_timespec TIMESPEC_HZ \<lparr>tv_sec = - 2, tv_nsec = 999999999\<rparr> \<and>
   valid_timespec TIMESPEC_HZ \<lparr>tv_sec = TIME_T_MAX, tv_nsec = 5\<rparr> \<and>
   timespec_value TIMESPEC_HZ \<lparr>tv_sec = TIME_T_MAX, tv_nsec = 5\<rparr> =
     timespec_value TIMESPEC_HZ \<lparr>tv_sec = TIME_T_MAX - 1, tv_nsec = 4\<rparr> -
     timespec_value TIMESPEC_HZ \<lparr>tv_sec = - 2, tv_nsec = 999999999\<rparr> \<and>
   timespec_sub TIMESPEC_HZ \<lparr>tv_sec = TIME_T_MAX - 1, tv_nsec = 4\<rparr>
     \<lparr>tv_sec = - 2, tv_nsec = 999999999\<rparr> = Inr \<lparr>tv_sec = TIME_T_MAX, tv_nsec = 5\<rparr>"
proof -
  have hz: "valid_hz TIMESPEC_HZ"
    by (simp add: concrete_defs)
  have h: "valid_timespec TIMESPEC_HZ \<lparr>tv_sec = TIME_T_MAX - 1, tv_nsec = 4\<rparr> \<and>
   valid_timespec TIMESPEC_HZ \<lparr>tv_sec = - 2, tv_nsec = 999999999\<rparr> \<and>
   valid_timespec TIMESPEC_HZ \<lparr>tv_sec = TIME_T_MAX, tv_nsec = 5\<rparr> \<and>
   timespec_value TIMESPEC_HZ \<lparr>tv_sec = TIME_T_MAX, tv_nsec = 5\<rparr> =
     timespec_value TIMESPEC_HZ \<lparr>tv_sec = TIME_T_MAX - 1, tv_nsec = 4\<rparr> -
     timespec_value TIMESPEC_HZ \<lparr>tv_sec = - 2, tv_nsec = 999999999\<rparr>"
    by (simp add: concrete_defs timespec_value_def)
  from boundary_not_clamped [OF hz, of "\<lparr>tv_sec = TIME_T_MAX - 1, tv_nsec = 4\<rparr>"
      "\<lparr>tv_sec = - 2, tv_nsec = 999999999\<rparr>" "\<lparr>tv_sec = TIME_T_MAX, tv_nsec = 5\<rparr>"] hz h
  show ?thesis by simp
qed

text \<open>
  C8. \<open>timespec_sub (a, a) = {0, 0}\<close> for every \<open>a\<close>; the precondition on \<open>tv_nsec\<close>
  is not even needed.
\<close>

theorem timespec_sub_self: "timespec_sub hz a a = Inr \<lparr>tv_sec = 0, tv_nsec = 0\<rparr>"
  by (simp add: timespec_sub_def long_sub_def long_to_int_def subtract_seconds_def
      ckd_sub_def wrap_time_t_def make_timespec_def time_t_range_def
      INT_MIN_def INT_MAX_def LONG_MIN_def LONG_MAX_def TIME_T_MIN_def TIME_T_MAX_def)

text \<open>
  C9. On valid inputs, seconds at \<open>SEC_MIN\<close> or \<open>SEC_MAX\<close> included, no unchecked
  operation of \<open>timespec_sub\<close> leaves the range of its type: the function returns a
  value, never a fault, and that value is the normalised difference or one of the two
  clamps, never a wrapped number.
\<close>

theorem timespec_sub_total:
  assumes "valid_hz hz" and "valid_timespec hz a" and "valid_timespec hz b"
  shows "\<exists>r. timespec_sub hz a b = Inr r \<and> time_t_range (tv_sec r) \<and>
           (r = \<lparr>tv_sec = diff_sec a b, tv_nsec = diff_nsec hz a b\<rparr> \<or>
            r = \<lparr>tv_sec = TIME_T_MIN, tv_nsec = 0\<rparr> \<or>
            r = \<lparr>tv_sec = TIME_T_MAX, tv_nsec = hz - 1\<rparr>)"
  by (simp add: timespec_sub_normalised [OF assms] time_t_range_def
      TIME_T_MIN_def TIME_T_MAX_def)

theorem timespec_sub_total_witness:
  "valid_hz TIMESPEC_HZ \<and>
   valid_timespec TIMESPEC_HZ \<lparr>tv_sec = TIME_T_MIN, tv_nsec = 0\<rparr> \<and>
   valid_timespec TIMESPEC_HZ \<lparr>tv_sec = TIME_T_MAX, tv_nsec = 999999999\<rparr> \<and>
   (\<exists>r. timespec_sub TIMESPEC_HZ \<lparr>tv_sec = TIME_T_MIN, tv_nsec = 0\<rparr>
          \<lparr>tv_sec = TIME_T_MAX, tv_nsec = 999999999\<rparr> = Inr r \<and> time_t_range (tv_sec r))"
proof -
  have hz: "valid_hz TIMESPEC_HZ"
    and a: "valid_timespec TIMESPEC_HZ \<lparr>tv_sec = TIME_T_MIN, tv_nsec = 0\<rparr>"
    and b: "valid_timespec TIMESPEC_HZ \<lparr>tv_sec = TIME_T_MAX, tv_nsec = 999999999\<rparr>"
    by (simp_all add: concrete_defs)
  from timespec_sub_total [OF hz a b] hz a b show ?thesis by blast
qed

text \<open>
  The precondition matters. Outside it the subtraction of the \<open>tv_nsec\<close> fields can
  overflow \<open>long\<close>, which is undefined; and a difference that does not fit the \<open>int\<close>
  receiving it loses its high bits, here all of \<open>2 ^ 32\<close> sub-second units.
\<close>

lemma timespec_sub_faults_outside_precondition:
  "timespec_sub TIMESPEC_HZ \<lparr>tv_sec = 0, tv_nsec = LONG_MIN\<rparr> \<lparr>tv_sec = 0, tv_nsec = 1\<rparr> =
     Inl Signed_Overflow"
  by (simp add: timespec_sub_def long_sub_def LONG_MIN_def LONG_MAX_def)

lemma timespec_sub_truncates_outside_precondition:
  "timespec_sub TIMESPEC_HZ \<lparr>tv_sec = 0, tv_nsec = 2 ^ 32\<rparr> \<lparr>tv_sec = 0, tv_nsec = 0\<rparr> =
     Inr \<lparr>tv_sec = 0, tv_nsec = 0\<rparr>"
  by (simp add: timespec_sub_def long_sub_def long_to_int_def subtract_seconds_def
      ckd_sub_def wrap_time_t_def make_timespec_def time_t_range_def
      LONG_MIN_def LONG_MAX_def TIME_T_MIN_def TIME_T_MAX_def)

text \<open>
  C10. For every valid \<open>a\<close>, \<open>timespec_sub (a, {0, 0})\<close> returns \<open>a\<close> unchanged,
  also when \<open>a.tv_sec\<close> is \<open>SEC_MIN\<close> or \<open>SEC_MAX\<close>.
\<close>

theorem timespec_sub_zero_right:
  assumes "valid_hz hz" and "valid_timespec hz a"
  shows "timespec_sub hz a \<lparr>tv_sec = 0, tv_nsec = 0\<rparr> = Inr a"
proof -
  from assms(1) have z: "valid_timespec hz \<lparr>tv_sec = 0, tv_nsec = 0\<rparr>"
    by (simp add: concrete_defs)
  from assms(2) show ?thesis
    by (simp add: timespec_sub_normalised [OF assms z] diff_sec_def diff_nsec_def
        valid_timespec_def time_t_range_def)
qed

theorem timespec_sub_zero_right_witness:
  "valid_hz TIMESPEC_HZ \<and>
   valid_timespec TIMESPEC_HZ \<lparr>tv_sec = TIME_T_MIN, tv_nsec = 999999999\<rparr> \<and>
   timespec_sub TIMESPEC_HZ \<lparr>tv_sec = TIME_T_MIN, tv_nsec = 999999999\<rparr>
     \<lparr>tv_sec = 0, tv_nsec = 0\<rparr> = Inr \<lparr>tv_sec = TIME_T_MIN, tv_nsec = 999999999\<rparr>"
proof -
  have hz: "valid_hz TIMESPEC_HZ"
    and a: "valid_timespec TIMESPEC_HZ \<lparr>tv_sec = TIME_T_MIN, tv_nsec = 999999999\<rparr>"
    by (simp_all add: concrete_defs)
  from timespec_sub_zero_right [OF hz a] hz a show ?thesis by blast
qed

end
